theory Spec2Isabelle
  imports Main
begin

section \<open>JavaScript values\<close>

text \<open>
  The contact endpoint (\<^verbatim>\<open>backend/server.js\<close>) and the form controller
  (\<^verbatim>\<open>handleContactSubmit\<close> in \<^verbatim>\<open>frontend/src/App.jsx\<close>) both work on values
  that come out of a JSON parser: \<^verbatim>\<open>req.body\<close> after \<^verbatim>\<open>express.json()\<close> on the
  server, \<^verbatim>\<open>await response.json()\<close> on the client. The code tests such values for
  truth (\<^verbatim>\<open>!email\<close>, \<^verbatim>\<open>result.message || ...\<close>), reads properties from them and
  interpolates them into template literals. \<open>jsval\<close> is the type of these values.

  A number is carried as its decimal rendering, the string that \<^verbatim>\<open>String(n)\<close> gives:
  the code never computes with a number, it only tests it for truth and prints it.
  An object is the list of its own properties, each name once; a parsed object has the
  prototype \<^verbatim>\<open>Object.prototype\<close> and no property holds a function.
\<close>

datatype jsval =
    JUndefined
  | JNull
  | JBool bool
  | JNum string
  | JStr string
  | JArr "jsval list"
  | JObj "(string \<times> jsval) list"

datatype js_error = TypeError | RangeError | SyntaxError | FetchFailed

text \<open>
  Truthiness (\<^verbatim>\<open>ToBoolean\<close>): \<^verbatim>\<open>undefined\<close>, \<^verbatim>\<open>null\<close>, \<^verbatim>\<open>false\<close>, the empty string,
  zero and NaN are falsy; every other value, every array and object included, is truthy.
  Both zeros print as \<^verbatim>\<open>0\<close>.
\<close>

fun truthy :: "jsval \<Rightarrow> bool" where
  "truthy JUndefined = False"
| "truthy JNull = False"
| "truthy (JBool b) = b"
| "truthy (JNum n) = (n \<noteq> ''0'' \<and> n \<noteq> ''NaN'')"
| "truthy (JStr s) = (s \<noteq> [])"
| "truthy (JArr xs) = True"
| "truthy (JObj ps) = True"

text \<open>
  Reading a property \<^verbatim>\<open>v.k\<close>, where \<open>k\<close> is \<^verbatim>\<open>email\<close> or \<^verbatim>\<open>message\<close>, also by the
  destructuring \<^verbatim>\<open>const { email, message } = v\<close>: \<^verbatim>\<open>null\<close> and \<^verbatim>\<open>undefined\<close> have no
  properties and the read throws a TypeError; an object gives its own property or
  \<^verbatim>\<open>undefined\<close>; arrays and primitives have no property of these names.
\<close>

fun get_prop :: "jsval \<Rightarrow> string \<Rightarrow> js_error + jsval" where
  "get_prop JUndefined k = Inl TypeError"
| "get_prop JNull k = Inl TypeError"
| "get_prop (JObj ps) k = (case map_of ps k of None \<Rightarrow> Inr JUndefined | Some v \<Rightarrow> Inr v)"
| "get_prop v k = Inr JUndefined"

text \<open>
  \<^verbatim>\<open>ToString\<close>, as a template literal \<^verbatim>\<open>`${v}`\<close> applies it. A string is itself. An
  array is joined with commas, \<^verbatim>\<open>null\<close> and \<^verbatim>\<open>undefined\<close> elements printing as the
  empty string. An object is converted by its \<^verbatim>\<open>toString\<close> method: the inherited one
  gives \<^verbatim>\<open>[object Object]\<close>; an own property named \<^verbatim>\<open>toString\<close> hides it, is not
  callable, the inherited \<^verbatim>\<open>valueOf\<close> (or an own, uncallable one) yields no primitive
  either, and the conversion throws a TypeError.

  The conversion of an array recurses: \<^verbatim>\<open>Array.prototype.toString\<close> calls \<^verbatim>\<open>join\<close>,
  which converts every element. The call stack of the engine bounds this recursion, and
  an array nested too deeply throws a RangeError (maximum call stack size exceeded).
  The bound is a constant of the engine and not of this code, so it is a parameter:
  \<open>room\<close> is the number of array levels the stack has room for at the place of the
  template literal.
\<close>

fun ToString :: "nat \<Rightarrow> jsval \<Rightarrow> js_error + string"
  and join :: "nat \<Rightarrow> jsval list \<Rightarrow> js_error + string" where
  "ToString room JUndefined = Inr ''undefined''"
| "ToString room JNull = Inr ''null''"
| "ToString room (JBool b) = Inr (if b then ''true'' else ''false'')"
| "ToString room (JNum n) = Inr n"
| "ToString room (JStr s) = Inr s"
| "ToString room (JArr xs) = (if room = 0 then Inl RangeError else join (room - 1) xs)"
| "ToString room (JObj ps) =
     (if map_of ps ''toString'' \<noteq> None then Inl TypeError else Inr ''[object Object]'')"
| "join room [] = Inr []"
| "join room (x # xs) =
     (case (if x = JUndefined \<or> x = JNull then Inr [] else ToString room x) of
        Inl e \<Rightarrow> Inl e
      | Inr s \<Rightarrow>
          (if xs = [] then Inr s
           else (case join room xs of Inl e \<Rightarrow> Inl e | Inr t \<Rightarrow> Inr (s @ '','' @ t))))"

text \<open>The empty array inside \<open>n\<close> further arrays: \<^verbatim>\<open>[]\<close>, \<^verbatim>\<open>[[]]\<close>, \<^verbatim>\<open>[[[]]]\<close>, ...\<close>

fun nested :: "nat \<Rightarrow> jsval" where
  "nested 0 = JArr []"
| "nested (Suc n) = JArr [nested n]"

section \<open>The submission endpoint\<close>

text \<open>
  \<^verbatim>\<open>console.log\<close> appends one entry to the process log; the log is the list of the
  entries written so far. A response is what the handler hands to \<^verbatim>\<open>res\<close>:
  \<^verbatim>\<open>res.status(n).json(v)\<close> or \<^verbatim>\<open>res.send(text)\<close>.
\<close>

type_synonym log = "string list"

datatype response = Json nat jsval | Send string

definition required_message :: string where
  "required_message = ''Email and message are required.''"

definition sent_message :: string where
  "sent_message = ''Your message has been sent successfully!''"

definition reply :: "bool \<Rightarrow> string \<Rightarrow> jsval" where
  "reply b msg = JObj [(''success'', JBool b), (''message'', JStr msg)]"

definition log_header :: string where
  "log_header = CHR 0x0A # ''--- New Contact Form Submission ---''"

definition log_footer :: string where
  "log_footer = ''-----------------------------------'' @ [CHR 0x0A]"

text \<open>
  \<^verbatim>\<open>app.post('/contact', (req, res) => ...)\<close>, applied to \<^verbatim>\<open>req.body\<close> and the log,
  with the room the engine's stack has. \<^verbatim>\<open>req.body\<close> is \<^verbatim>\<open>undefined\<close> when no body was
  parsed. The result is the response, or the error the handler threw, and the log as the
  handler left it. The handler has no \<^verbatim>\<open>try\<close>: an error thrown by the destructuring or
  by a template literal leaves it at once, after the entries already written and before
  anything is sent.
\<close>

definition post_contact :: "nat \<Rightarrow> jsval \<Rightarrow> log \<Rightarrow> (js_error + response) \<times> log" where
  "post_contact room body lg =
     (case get_prop body ''email'' of
        Inl e \<Rightarrow> (Inl e, lg)
      | Inr email \<Rightarrow>
     (case get_prop body ''message'' of
        Inl e \<Rightarrow> (Inl e, lg)
      | Inr message \<Rightarrow>
          if \<not> truthy email \<or> \<not> truthy message
          then (Inr (Json 400 (reply False required_message)), lg)
          else
            let lg1 = lg @ [log_header] in
            (case ToString room email of
               Inl e \<Rightarrow> (Inl e, lg1)
             | Inr es \<Rightarrow>
                 let lg2 = lg1 @ [''Email: '' @ es] in
                 (case ToString room message of
                    Inl e \<Rightarrow> (Inl e, lg2)
                  | Inr ms \<Rightarrow>
                      let lg3 = lg2 @ [''Message: '' @ ms];
                          lg4 = lg3 @ [log_footer]
                      in (Inr (Json 200 (reply True sent_message)), lg4)))))"

text \<open>\<^verbatim>\<open>app.get('/', (req, res) => ...)\<close>: the request is not read.\<close>

definition liveness_text :: string where
  "liveness_text =
     ''JR Tech Solutions Backend is running. Ready to receive POST requests at /contact.''"

definition get_root :: "'req \<Rightarrow> response" where
  "get_root req = Send liveness_text"

section \<open>The form controller\<close>

text \<open>
  The component state of \<^verbatim>\<open>App\<close> that the contact form uses, one field for each
  \<^verbatim>\<open>useState\<close>. \<^verbatim>\<open>contactSuccess\<close> is \<^verbatim>\<open>null\<close>, \<^verbatim>\<open>true\<close> or \<^verbatim>\<open>false\<close>.
  \<^verbatim>\<open>contactFeedback\<close> receives \<^verbatim>\<open>result.message\<close> as it comes, so it holds a value of
  any kind. A setter call updates its field.
\<close>

record form_state =
  contactEmail :: string
  contactMessage :: string
  contactLoading :: bool
  contactSuccess :: "bool option"
  contactFeedback :: jsval

text \<open>
  The arguments of the \<^verbatim>\<open>fetch\<close> call. \<open>req_json\<close> is the object given to
  \<^verbatim>\<open>JSON.stringify\<close>; it is built from the field values of the render in which the form
  was submitted.
\<close>

record fetch_request =
  req_url :: string
  req_method :: string
  req_content_type :: string
  req_json :: jsval

definition CONTACT_API_URL :: string where
  "CONTACT_API_URL = ''http://localhost:3001/contact''"

definition contact_request :: "form_state \<Rightarrow> fetch_request" where
  "contact_request s =
     \<lparr> req_url = CONTACT_API_URL,
       req_method = ''POST'',
       req_content_type = ''application/json'',
       req_json = JObj [(''email'', JStr (contactEmail s)),
                        (''message'', JStr (contactMessage s))] \<rparr>"

text \<open>
  What the two \<^verbatim>\<open>await\<close>s come to. \<^verbatim>\<open>fetch\<close> rejects when no response can be had
  (\<open>Unreachable\<close>), or resolves with a response of some status; then
  \<^verbatim>\<open>response.json()\<close> rejects when the body is not JSON (\<open>NotJson\<close>), or resolves with
  the parsed value. \<^verbatim>\<open>response.ok\<close> holds for the statuses 200 to 299.
\<close>

datatype body_read = NotJson | Parsed jsval

datatype fetch_result = Unreachable | Responded nat body_read

definition ok :: "nat \<Rightarrow> bool" where
  "ok status = (200 \<le> status \<and> status \<le> 299)"

definition generic_failure :: string where
  "generic_failure = ''Something went wrong. Please try again.''"

definition network_failure :: string where
  "network_failure = ''Network error. Please ensure the backend server is running.''"

text \<open>
  The \<^verbatim>\<open>try\<close> block, from the state the three resetting setters left. It gives the error
  that ended it, if one did, and the state reached by then: in both branches
  \<^verbatim>\<open>setContactSuccess\<close> has run before \<^verbatim>\<open>result.message\<close> is read.
\<close>

fun submit_try :: "fetch_result \<Rightarrow> form_state \<Rightarrow> js_error option \<times> form_state" where
  "submit_try Unreachable s = (Some FetchFailed, s)"
| "submit_try (Responded status NotJson) s = (Some SyntaxError, s)"
| "submit_try (Responded status (Parsed result)) s =
     (if ok status then
        let s1 = s\<lparr>contactSuccess := Some True\<rparr> in
        (case get_prop result ''message'' of
           Inl e \<Rightarrow> (Some e, s1)
         | Inr msg \<Rightarrow>
             (None, s1\<lparr>contactFeedback := msg, contactEmail := [], contactMessage := []\<rparr>))
      else
        let s1 = s\<lparr>contactSuccess := Some False\<rparr> in
        (case get_prop result ''message'' of
           Inl e \<Rightarrow> (Some e, s1)
         | Inr msg \<Rightarrow>
             (None, s1\<lparr>contactFeedback := (if truthy msg then msg else JStr generic_failure)\<rparr>)))"

text \<open>
  \<^verbatim>\<open>handleContactSubmit\<close>, given what the request \<open>contact_request s\<close> came to: the
  resetting setters, the \<^verbatim>\<open>try\<close> block, the \<^verbatim>\<open>catch\<close> clause when the block threw, and
  the \<^verbatim>\<open>finally\<close> clause. The result is the component state once the function has
  returned, as its own setter calls leave it.
\<close>

definition handleContactSubmit :: "fetch_result \<Rightarrow> form_state \<Rightarrow> form_state" where
  "handleContactSubmit r s =
     (let s0 = s\<lparr>contactLoading := True, contactSuccess := None, contactFeedback := JStr []\<rparr>;
          (err, s1) = submit_try r s0;
          s2 = (case err of
                  None \<Rightarrow> s1
                | Some e \<Rightarrow>
                    s1\<lparr>contactSuccess := Some False, contactFeedback := JStr network_failure\<rparr>)
      in s2\<lparr>contactLoading := False\<rparr>)"

section \<open>Properties of the conversion to a string\<close>

text \<open>
  The conversion throws nothing but a TypeError or a RangeError, and for every bound
  there is an array that exceeds it: \<open>nested n\<close> converts to the empty string when the
  stack has room for more than \<open>n\<close> levels and throws a RangeError otherwise.
\<close>

lemma ToString_join_errors:
  shows "ToString room v = Inl err \<Longrightarrow> err = TypeError \<or> err = RangeError"
    and "join room vs = Inl err \<Longrightarrow> err = TypeError \<or> err = RangeError"
proof (induction room v and room vs rule: ToString_join.induct)
  case (6 room xs)
  then show ?case by (cases "room = 0") simp_all
next
  case (9 room x xs)
  then show ?case by (auto split: sum.splits if_splits)
qed (simp_all split: if_splits)

lemmas ToString_errors = ToString_join_errors(1)

lemma ToString_nested:
  "ToString room (nested n) = (if n < room then Inr [] else Inl RangeError)"
proof (induction n arbitrary: room)
  case 0
  then show ?case by simp
next
  case (Suc n)
  show ?case
  proof (cases room)
    case 0
    then show ?thesis by simp
  next
    case (Suc k)
    with Suc.IH [of k] show ?thesis by (cases n) auto
  qed
qed

section \<open>Properties of the submission endpoint\<close>

lemma get_prop_cases:
  "(get_prop body ''email'' = Inl TypeError \<and> get_prop body ''message'' = Inl TypeError)
   \<or> (\<exists>e m. get_prop body ''email'' = Inr e \<and> get_prop body ''message'' = Inr m)"
  by (cases body) (simp_all split: option.splits)

lemma not_truthy_rejected:
  assumes "get_prop body ''email'' = Inr e" and "get_prop body ''message'' = Inr m"
    and "\<not> truthy e \<or> \<not> truthy m"
  shows "post_contact room body lg = (Inr (Json 400 (reply False required_message)), lg)"
  using assms by (simp add: post_contact_def)

text \<open>
  A request without a parsed body is missing both fields, and it gets no 400 from the
  handler: \<^verbatim>\<open>req.body\<close> is \<^verbatim>\<open>undefined\<close>, and the destructuring
  \<^verbatim>\<open>const { email, message } = req.body\<close> throws a TypeError before the check is
  reached. The log is untouched, and the handler has sent nothing.
\<close>

theorem contact_no_body_counterexample:
  "post_contact 1000 JUndefined [''earlier entry''] = (Inl TypeError, [''earlier entry''])"
  by (simp add: post_contact_def)

text \<open>
  Claim C1, amended. When the request body can be read from (\<^verbatim>\<open>req.body\<close> is neither
  \<^verbatim>\<open>undefined\<close> nor \<^verbatim>\<open>null\<close>) and \<^verbatim>\<open>email\<close> or \<^verbatim>\<open>message\<close> is missing from it, that
  is absent (it reads as \<^verbatim>\<open>undefined\<close>) or the empty string, the endpoint answers with
  status 400 and the body
  \<^verbatim>\<open>{success: false, message: "Email and message are required."}\<close>, and the log is the
  log it found. A property reads as a value (\<open>Inr\<close>) only from a body that can be read
  from.
\<close>

theorem contact_missing_field_rejected:
  assumes "get_prop body ''email'' = Inr JUndefined \<or> get_prop body ''email'' = Inr (JStr [])
         \<or> get_prop body ''message'' = Inr JUndefined \<or> get_prop body ''message'' = Inr (JStr [])"
  shows "post_contact room body lg =
         (Inr (Json 400 (JObj [(''success'', JBool False),
                               (''message'', JStr ''Email and message are required.'')])), lg)"
proof -
  from assms get_prop_cases [of body]
  obtain e m where em: "get_prop body ''email'' = Inr e" "get_prop body ''message'' = Inr m"
    by auto
  with assms have "\<not> truthy e \<or> \<not> truthy m" by auto
  from not_truthy_rejected [OF em this] show ?thesis
    by (simp add: reply_def required_message_def)
qed

text \<open>The spec's example \<^verbatim>\<open>{email: "", message: "hi"}\<close>, with an entry already in the log.\<close>

theorem contact_missing_field_rejected_witness:
  "post_contact 1000 (JObj [(''email'', JStr []), (''message'', JStr ''hi'')]) [''earlier entry''] =
     (Inr (Json 400 (JObj [(''success'', JBool False),
                           (''message'', JStr ''Email and message are required.'')])),
      [''earlier entry''])"
  by (rule contact_missing_field_rejected) simp

text \<open>
  Claim C2. When \<^verbatim>\<open>email\<close> and \<^verbatim>\<open>message\<close> are both non-empty strings, the endpoint
  answers with status 200 and the body
  \<^verbatim>\<open>{success: true, message: "Your message has been sent successfully!"}\<close>, after it has
  written the submission to the log: the four entries of the handler, in their order,
  behind what the log held.
\<close>

theorem contact_accepted:
  assumes "get_prop body ''email'' = Inr (JStr e)" and "get_prop body ''message'' = Inr (JStr m)"
    and "e \<noteq> []" and "m \<noteq> []"
  shows "post_contact room body lg =
         (Inr (Json 200 (JObj [(''success'', JBool True),
                               (''message'', JStr ''Your message has been sent successfully!'')])),
          lg @ [CHR 0x0A # ''--- New Contact Form Submission ---'',
                ''Email: '' @ e,
                ''Message: '' @ m,
                ''-----------------------------------'' @ [CHR 0x0A]])"
  using assms
  by (simp add: post_contact_def reply_def sent_message_def log_header_def log_footer_def)

text \<open>The spec's example \<^verbatim>\<open>{email: "a@b.com", message: "hi"}\<close>.\<close>

theorem contact_accepted_witness:
  "post_contact 1000 (JObj [(''email'', JStr ''a@b.com''), (''message'', JStr ''hi'')]) [] =
     (Inr (Json 200 (JObj [(''success'', JBool True),
                           (''message'', JStr ''Your message has been sent successfully!'')])),
      [CHR 0x0A # ''--- New Contact Form Submission ---'',
       ''Email: a@b.com'',
       ''Message: hi'',
       ''-----------------------------------'' @ [CHR 0x0A]])"
  using contact_accepted [of "JObj [(''email'', JStr ''a@b.com''), (''message'', JStr ''hi'')]"
                             "''a@b.com''" "''hi''" 1000 "[]"]
  by simp

text \<open>
  Not every request gets a \<^verbatim>\<open>{success, message}\<close> response from the handler. For the
  body \<^verbatim>\<open>{"email": {"toString": 1}, "message": "hi"}\<close> both fields are truthy, so the
  handler passes its check and writes the first log entry; the template literal
  \<^verbatim>\<open>`Email: ${email}`\<close> then throws a TypeError, since the object's own \<^verbatim>\<open>toString\<close>
  is not a function. The handler ends there and has sent nothing.
\<close>

theorem contact_throws_counterexample:
  "post_contact 1000
     (JObj [(''email'', JObj [(''toString'', JNum ''1'')]), (''message'', JStr ''hi'')]) []
     = (Inl TypeError, [CHR 0x0A # ''--- New Contact Form Submission ---''])"
  by (simp add: post_contact_def log_header_def)

text \<open>
  Claim C3, amended. Every response of the handler has a body
  \<^verbatim>\<open>{success: boolean, message: string}\<close>, with status 200 exactly when \<^verbatim>\<open>success\<close> is
  true and 400 exactly when it is false; the handler sets no other status. Not every
  request gets a response, and what the handler does is this, for every request:
  \<^item> when the fields cannot be read from the body, it throws a TypeError, the log
    unchanged;
  \<^item> when one of them is falsy, it answers 400 with the required-fields message, the log
    unchanged;
  \<^item> when both are truthy, it writes the header entry, converts \<^verbatim>\<open>email\<close> and writes
    its entry, converts \<^verbatim>\<open>message\<close> and writes its entry and the footer, and answers
    200 with the confirmation; when a conversion throws, the handler throws that error
    after the entries written so far, and sends nothing.
  The error of a conversion is a TypeError or a RangeError.
\<close>

theorem contact_response_shape:
  "(fst (post_contact room body lg) = Inr r \<longrightarrow>
      (\<exists>status b t. r = Json status (JObj [(''success'', JBool b), (''message'', JStr t)])
         \<and> (status = 200 \<longleftrightarrow> b) \<and> (status = 400 \<longleftrightarrow> \<not> b)))
   \<and> (get_prop body ''email'' = Inl TypeError \<longrightarrow>
        post_contact room body lg = (Inl TypeError, lg))
   \<and> (\<forall>e m. get_prop body ''email'' = Inr e \<and> get_prop body ''message'' = Inr m \<longrightarrow>
        post_contact room body lg =
          (if \<not> truthy e \<or> \<not> truthy m
           then (Inr (Json 400 (JObj [(''success'', JBool False),
                    (''message'', JStr ''Email and message are required.'')])), lg)
           else
             (case ToString room e of
                Inl err \<Rightarrow> (Inl err, lg @ [CHR 0x0A # ''--- New Contact Form Submission ---''])
              | Inr es \<Rightarrow>
                  (case ToString room m of
                     Inl err \<Rightarrow>
                       (Inl err, lg @ [CHR 0x0A # ''--- New Contact Form Submission ---'',
                                       ''Email: '' @ es])
                   | Inr ms \<Rightarrow>
                       (Inr (Json 200 (JObj [(''success'', JBool True),
                          (''message'', JStr ''Your message has been sent successfully!'')])),
                        lg @ [CHR 0x0A # ''--- New Contact Form Submission ---'',
                              ''Email: '' @ es,
                              ''Message: '' @ ms,
                              ''-----------------------------------'' @ [CHR 0x0A]])))))
   \<and> (fst (post_contact room body lg) = Inl err \<longrightarrow> err = TypeError \<or> err = RangeError)"
proof (intro conjI allI impI)
  assume "fst (post_contact room body lg) = Inr r"
  then show "\<exists>status b t. r = Json status (JObj [(''success'', JBool b), (''message'', JStr t)])
         \<and> (status = 200 \<longleftrightarrow> b) \<and> (status = 400 \<longleftrightarrow> \<not> b)"
    by (auto simp: post_contact_def reply_def Let_def split: sum.splits if_splits)
next
  assume "get_prop body ''email'' = Inl TypeError"
  then show "post_contact room body lg = (Inl TypeError, lg)"
    by (simp add: post_contact_def)
next
  fix e m
  assume "get_prop body ''email'' = Inr e \<and> get_prop body ''message'' = Inr m"
  then show "post_contact room body lg =
          (if \<not> truthy e \<or> \<not> truthy m
           then (Inr (Json 400 (JObj [(''success'', JBool False),
                    (''message'', JStr ''Email and message are required.'')])), lg)
           else
             (case ToString room e of
                Inl err \<Rightarrow> (Inl err, lg @ [CHR 0x0A # ''--- New Contact Form Submission ---''])
              | Inr es \<Rightarrow>
                  (case ToString room m of
                     Inl err \<Rightarrow>
                       (Inl err, lg @ [CHR 0x0A # ''--- New Contact Form Submission ---'',
                                       ''Email: '' @ es])
                   | Inr ms \<Rightarrow>
                       (Inr (Json 200 (JObj [(''success'', JBool True),
                          (''message'', JStr ''Your message has been sent successfully!'')])),
                        lg @ [CHR 0x0A # ''--- New Contact Form Submission ---'',
                              ''Email: '' @ es,
                              ''Message: '' @ ms,
                              ''-----------------------------------'' @ [CHR 0x0A]]))))"
    by (simp add: post_contact_def reply_def required_message_def sent_message_def
          log_header_def log_footer_def Let_def split: sum.splits)
next
  assume thrown: "fst (post_contact room body lg) = Inl err"
  from get_prop_cases [of body] show "err = TypeError \<or> err = RangeError"
  proof
    assume "get_prop body ''email'' = Inl TypeError \<and> get_prop body ''message'' = Inl TypeError"
    with thrown show ?thesis by (simp add: post_contact_def)
  next
    assume "\<exists>e m. get_prop body ''email'' = Inr e \<and> get_prop body ''message'' = Inr m"
    then obtain e m where "get_prop body ''email'' = Inr e" "get_prop body ''message'' = Inr m"
      by blast
    with thrown have "ToString room e = Inl err \<or> ToString room m = Inl err"
      by (auto simp: post_contact_def Let_def split: sum.splits if_splits)
    then show ?thesis using ToString_errors by blast
  qed
qed

text \<open>
  Three requests, one for each way the handler ends. A number for the email and an
  array for the message, both truthy and both printable: the handler logs them as
  \<^verbatim>\<open>42\<close> and \<^verbatim>\<open>a,\<close> and answers 200. The empty string for the email: it answers 400.
  An email of three nested arrays on a stack with room for two: it throws a RangeError
  after the header entry.
\<close>

theorem contact_response_shape_witness:
  "post_contact 1000 (JObj [(''email'', JNum ''42''), (''message'', JArr [JStr ''a'', JNull])]) []
     = (Inr (Json 200 (JObj [(''success'', JBool True),
                             (''message'', JStr ''Your message has been sent successfully!'')])),
        [CHR 0x0A # ''--- New Contact Form Submission ---'',
         ''Email: 42'',
         ''Message: a,'',
         ''-----------------------------------'' @ [CHR 0x0A]])
   \<and> (\<exists>status b t.
         Json 200 (JObj [(''success'', JBool True),
                         (''message'', JStr ''Your message has been sent successfully!'')])
           = Json status (JObj [(''success'', JBool b), (''message'', JStr t)])
         \<and> (status = 200 \<longleftrightarrow> b) \<and> (status = 400 \<longleftrightarrow> \<not> b))
   \<and> post_contact 1000 (JObj [(''email'', JStr []), (''message'', JStr ''hi'')]) []
     = (Inr (Json 400 (JObj [(''success'', JBool False),
                             (''message'', JStr ''Email and message are required.'')])), [])
   \<and> post_contact 2 (JObj [(''email'', JArr [JArr [JArr []]]), (''message'', JStr ''hi'')]) []
     = (Inl RangeError, [CHR 0x0A # ''--- New Contact Form Submission ---''])"
  using contact_response_shape
    [where room = 1000
       and body = "JObj [(''email'', JNum ''42''), (''message'', JArr [JStr ''a'', JNull])]"
       and lg = "[]"
       and r = "Json 200 (JObj [(''success'', JBool True),
                  (''message'', JStr ''Your message has been sent successfully!'')])"
       and err = TypeError]
    contact_response_shape
    [where room = 1000
       and body = "JObj [(''email'', JStr []), (''message'', JStr ''hi'')]"
       and lg = "[]"
       and r = "Json 400 (JObj [(''success'', JBool False),
                  (''message'', JStr ''Email and message are required.'')])"
       and err = TypeError]
    contact_response_shape
    [where room = 2
       and body = "JObj [(''email'', JArr [JArr [JArr []]]), (''message'', JStr ''hi'')]"
       and lg = "[]"
       and r = "Json 200 (JObj [])"
       and err = RangeError]
  by (simp add: numeral_2_eq_2)

text \<open>
  Claim C8. \<^verbatim>\<open>GET /\<close> sends the fixed liveness string, whatever the request.
\<close>

theorem get_root_liveness:
  "get_root req =
     Send ''JR Tech Solutions Backend is running. Ready to receive POST requests at /contact.''"
  by (simp add: get_root_def liveness_text_def)

text \<open>
  Claim C9. The check of the endpoint does not trim: a request whose \<^verbatim>\<open>email\<close> and
  \<^verbatim>\<open>message\<close> are each a single space is answered with status 200 and
  \<^verbatim>\<open>success: true\<close>.
\<close>

theorem contact_whitespace_accepted:
  "fst (post_contact room (JObj [(''email'', JStr '' ''), (''message'', JStr '' '')]) lg) =
     Inr (Json 200 (JObj [(''success'', JBool True),
                          (''message'', JStr ''Your message has been sent successfully!'')]))"
  by (simp add: post_contact_def reply_def sent_message_def)

theorem contact_whitespace_accepted_witness:
  "fst (post_contact 1000 (JObj [(''email'', JStr '' ''), (''message'', JStr '' '')]) []) =
     Inr (Json 200 (JObj [(''success'', JBool True),
                          (''message'', JStr ''Your message has been sent successfully!'')]))"
  by (rule contact_whitespace_accepted)

section \<open>Properties of the form controller\<close>

text \<open>
  A success response need not carry JSON. On a response of status 204, whose body is
  empty, \<^verbatim>\<open>response.json()\<close> rejects before \<^verbatim>\<open>response.ok\<close> is looked at; the
  \<^verbatim>\<open>catch\<close> clause marks the submission as failed and shows the connectivity message,
  and the inputs keep their values.
\<close>

theorem submit_success_counterexample:
  "handleContactSubmit (Responded 204 NotJson)
     \<lparr>contactEmail = ''a@b.com'', contactMessage = ''hi'', contactLoading = False,
      contactSuccess = None, contactFeedback = JStr []\<rparr>
   = \<lparr>contactEmail = ''a@b.com'', contactMessage = ''hi'', contactLoading = False,
      contactSuccess = Some False,
      contactFeedback = JStr ''Network error. Please ensure the backend server is running.''\<rparr>"
  by (simp add: handleContactSubmit_def network_failure_def)

text \<open>
  Claim C4, amended. When the submission receives a success (2xx) response whose body
  parses as JSON to a value that \<^verbatim>\<open>message\<close> can be read from (any value but
  \<^verbatim>\<open>null\<close>), the final state has both inputs empty, \<^verbatim>\<open>contactSuccess\<close> true,
  \<^verbatim>\<open>contactFeedback\<close> equal to that message and \<^verbatim>\<open>contactLoading\<close> false.
\<close>

theorem submit_success:
  assumes "ok status" and "get_prop result ''message'' = Inr msg"
  shows "handleContactSubmit (Responded status (Parsed result)) s =
         s\<lparr>contactEmail := [], contactMessage := [], contactSuccess := Some True,
           contactFeedback := msg, contactLoading := False\<rparr>"
  using assms by (simp add: handleContactSubmit_def)

text \<open>The endpoint's own success response, received by a filled form.\<close>

theorem submit_success_witness:
  "handleContactSubmit
     (Responded 200 (Parsed (JObj [(''success'', JBool True),
        (''message'', JStr ''Your message has been sent successfully!'')])))
     \<lparr>contactEmail = ''a@b.com'', contactMessage = ''hi'', contactLoading = False,
      contactSuccess = None, contactFeedback = JStr []\<rparr>
   = \<lparr>contactEmail = [], contactMessage = [], contactLoading = False,
      contactSuccess = Some True,
      contactFeedback = JStr ''Your message has been sent successfully!''\<rparr>"
  using submit_success
    [of 200
        "JObj [(''success'', JBool True),
               (''message'', JStr ''Your message has been sent successfully!'')]"
        "JStr ''Your message has been sent successfully!''"
        "\<lparr>contactEmail = ''a@b.com'', contactMessage = ''hi'', contactLoading = False,
          contactSuccess = None, contactFeedback = JStr []\<rparr>"]
  by (simp add: ok_def)

text \<open>
  Claim C5. When the request itself fails, no response being reachable, the final state
  has \<^verbatim>\<open>contactSuccess\<close> false, \<^verbatim>\<open>contactFeedback\<close> the connectivity message and
  \<^verbatim>\<open>contactLoading\<close> false; nothing else of the state has changed.
\<close>

theorem submit_unreachable:
  "handleContactSubmit Unreachable s =
     s\<lparr>contactSuccess := Some False,
       contactFeedback := JStr ''Network error. Please ensure the backend server is running.'',
       contactLoading := False\<rparr>"
  by (simp add: handleContactSubmit_def network_failure_def)

text \<open>
  Claim C6. Whatever the request came to, a success response, a response that is not
  OK, a body that is not JSON or no response at all, \<^verbatim>\<open>handleContactSubmit\<close> ends with
  \<^verbatim>\<open>contactLoading\<close> false.
\<close>

theorem submit_leaves_loading:
  "contactLoading (handleContactSubmit r s) = False"
  by (simp add: handleContactSubmit_def Let_def split: prod.splits option.splits)




text \<open>
  Claim C10. When the submission does not succeed, because the response is not OK or
  because no response was reachable, \<^verbatim>\<open>contactEmail\<close> and \<^verbatim>\<open>contactMessage\<close> are what
  they were when the form was submitted.
\<close>

theorem submit_failure_keeps_inputs:
  assumes "r = Unreachable \<or> (\<exists>status b. r = Responded status b \<and> \<not> ok status)"
  shows "contactEmail (handleContactSubmit r s) = contactEmail s
       \<and> contactMessage (handleContactSubmit r s) = contactMessage s"
proof (cases r)
  case Unreachable
  then show ?thesis by (simp add: handleContactSubmit_def)
next
  case (Responded status b)
  with assms have "\<not> ok status" by simp
  with Responded show ?thesis
    by (cases b) (simp_all add: handleContactSubmit_def Let_def split: sum.splits)
qed

theorem submit_failure_keeps_inputs_witness:
  "contactEmail (handleContactSubmit
      (Responded 400 (Parsed (JObj [(''success'', JBool False),
         (''message'', JStr ''Email and message are required.'')])))
      \<lparr>contactEmail = ''a@b.com'', contactMessage = ''hi'', contactLoading = False,
       contactSuccess = None, contactFeedback = JStr []\<rparr>) = ''a@b.com''
   \<and> contactMessage (handleContactSubmit
      (Responded 400 (Parsed (JObj [(''success'', JBool False),
         (''message'', JStr ''Email and message are required.'')])))
      \<lparr>contactEmail = ''a@b.com'', contactMessage = ''hi'', contactLoading = False,
       contactSuccess = None, contactFeedback = JStr []\<rparr>) = ''hi''"
  using submit_failure_keeps_inputs
    [of "Responded 400 (Parsed (JObj [(''success'', JBool False),
           (''message'', JStr ''Email and message are required.'')]))"
        "\<lparr>contactEmail = ''a@b.com'', contactMessage = ''hi'', contactLoading = False,
          contactSuccess = None, contactFeedback = JStr []\<rparr>"]
  by (simp add: ok_def)

text \<open>
  More generally the inputs change only when the submission ends as a success, which
  also covers a 2xx response whose body could not be read.
\<close>

lemma inputs_cleared_only_on_success:
  assumes "contactSuccess (handleContactSubmit r s) \<noteq> Some True"
  shows "contactEmail (handleContactSubmit r s) = contactEmail s
       \<and> contactMessage (handleContactSubmit r s) = contactMessage s"
proof (cases r)
  case Unreachable
  then show ?thesis by (simp add: handleContactSubmit_def)
next
  case (Responded status b)
  with assms show ?thesis
    by (cases b) (simp_all add: handleContactSubmit_def Let_def split: sum.splits if_splits)
qed

section \<open>The round trip\<close>

text \<open>
  The request the form sends is never one on which the handler throws: both fields are
  strings, and the endpoint's verdict depends only on whether one of them is empty.
\<close>

lemma contact_request_served:
  "fst (post_contact room (req_json (contact_request s)) lg) =
     (if contactEmail s = [] \<or> contactMessage s = []
      then Inr (Json 400 (reply False required_message))
      else Inr (Json 200 (reply True sent_message)))"
  by (simp add: contact_request_def post_contact_def)

text \<open>
  When the endpoint's response to that request reaches the form as it was sent, the
  submission ends in one of two states: rejected with the endpoint's message and the
  inputs kept, or accepted with the confirmation and the inputs cleared.
\<close>

lemma round_trip:
  assumes "post_contact room (req_json (contact_request s)) lg = (Inr (Json status v), lg')"
  shows "handleContactSubmit (Responded status (Parsed v)) s =
         (if contactEmail s = [] \<or> contactMessage s = []
          then s\<lparr>contactSuccess := Some False,
                 contactFeedback := JStr ''Email and message are required.'',
                 contactLoading := False\<rparr>
          else s\<lparr>contactEmail := [], contactMessage := [], contactSuccess := Some True,
                 contactFeedback := JStr ''Your message has been sent successfully!'',
                 contactLoading := False\<rparr>)"
proof (cases "contactEmail s = [] \<or> contactMessage s = []")
  case True
  with assms have "status = 400" and "v = reply False required_message"
    by (auto simp: contact_request_def post_contact_def)
  with True show ?thesis
    by (simp add: handleContactSubmit_def ok_def reply_def required_message_def)
next
  case False
  with assms have "status = 200" and "v = reply True sent_message"
    by (auto simp: contact_request_def post_contact_def Let_def)
  with False show ?thesis
    by (simp add: handleContactSubmit_def ok_def reply_def sent_message_def)
qed

end
